theory Spec2Isabelle
  imports Complex_Main "HOL-Library.Word"
begin

section \<open>Strings, frames and the pipeline state\<close>

text \<open>
  A Python \<open>str\<close> is a sequence of Unicode code points, so the transcripts are lists of
  code points. The Bengali phrases of the examples are written by their code points.
\<close>

type_synonym pystr = "nat list"

text \<open>
  A captured chunk: \<open>stream.read\<close> returns the bytes of \<open>chunk_size\<close> samples of format
  \<open>paInt16\<close>; the chunk is modelled by the sequence of 16-bit samples that
  \<open>np.frombuffer(data, dtype=np.int16)\<close> reads from it.
\<close>

type_synonym frame = "16 word list"

text \<open>The level stored with a frame is a float; \<open>None\<close> stands for NaN.\<close>

type_synonym level = "real option"

datatype loop = RecordingLoop | ProcessingLoop

text \<open>
  The effects of the code that are not a field of the object, in the order in which they
  happen: invocations of the two callbacks with their argument, assignments to the two
  transcripts, a window handed to the recognizer (once its WAV file is written), a read
  of the microphone stream and a \<open>time.sleep(0.1)\<close> of either loop.
\<close>

datatype event =
    WriteBengali pystr
  | BengaliUpdate pystr
  | WriteEnglish pystr
  | EnglishUpdate pystr
  | Cycle "frame list"
  | StreamRead
  | Sleep loop

text \<open>
  \<open>TranscriptionPipeline\<close>. The callbacks are modelled by whether one is registered
  (\<open>None\<close> in the source when not) and by the events their invocation leaves in
  \<open>trace\<close>; a callback is taken to return normally. \<open>threads\<close> lists every
  thread the pipeline has started, in order; a thread reference is the index of its
  thread in that list.
\<close>

record pipeline =
  is_running :: bool
  is_paused :: bool
  audio_queue :: "(frame \<times> level) list"
  current_bengali_text :: pystr
  current_english_text :: pystr
  on_bengali_update :: bool
  on_english_update :: bool
  bengali_medical_terms :: "pystr \<rightharpoonup> pystr"
  recording_thread :: "nat option"
  processing_thread :: "nat option"
  threads :: "loop list"
  trace :: "event list"

definition init :: pipeline where
  "init = \<lparr> is_running = False, is_paused = False, audio_queue = [],
            current_bengali_text = [], current_english_text = [],
            on_bengali_update = False, on_english_update = False,
            bengali_medical_terms = Map.empty,
            recording_thread = None, processing_thread = None,
            threads = [], trace = [] \<rparr>"

subsection \<open>The outcomes of the external services\<close>

text \<open>
  \<open>recognize_google\<close> returns a text or raises \<open>UnknownValueError\<close>, \<open>RequestError\<close> or,
  like \<open>sr.AudioFile\<close> and \<open>recognizer.record\<close> before it, some other exception.
  \<open>translator.translate\<close> returns a translation or raises.
\<close>

datatype recognition = Text pystr | UnknownValueError | RequestError | OtherError

datatype translation = Translated pystr | TranslationError

subsection \<open>\<open>str.split()\<close> and \<open>" ".join\<close>\<close>

text \<open>The code points for which \<open>str.isspace\<close> holds, on which \<open>str.split()\<close> splits.\<close>

definition isspace :: "nat \<Rightarrow> bool" where
  "isspace c \<longleftrightarrow>
     (9 \<le> c \<and> c \<le> 13) \<or> (28 \<le> c \<and> c \<le> 32) \<or> c = 133 \<or> c = 160 \<or> c = 5760 \<or>
     (8192 \<le> c \<and> c \<le> 8202) \<or> c = 8232 \<or> c = 8233 \<or> c = 8239 \<or> c = 8287 \<or> c = 12288"

text \<open>
  \<open>split_from w cs\<close> scans \<open>cs\<close> with the word read so far in \<open>w\<close>: a run of whitespace
  ends the word, and an empty word is never produced.
\<close>

fun split_from :: "pystr \<Rightarrow> pystr \<Rightarrow> pystr list" where
  "split_from w [] = (if w = [] then [] else [w])"
| "split_from w (c # cs) =
     (if isspace c then (if w = [] then split_from [] cs else w # split_from [] cs)
      else split_from (w @ [c]) cs)"

definition split :: "pystr \<Rightarrow> pystr list" where
  "split text = split_from [] text"

fun join :: "pystr \<Rightarrow> pystr list \<Rightarrow> pystr" where
  "join sep [] = []"
| "join sep [w] = w"
| "join sep (w # v # ws) = w @ sep @ join sep (v # ws)"

abbreviation space :: pystr where
  "space \<equiv> [32]"

section \<open>The manual edit\<close>

text \<open>
  The loop of \<open>update_bengali_text\<close> over \<open>words\<close>, appending to \<open>translated_words\<close> the
  dictionary's value for a word that is a key and the word itself otherwise.
\<close>

fun translate_words :: "(pystr \<rightharpoonup> pystr) \<Rightarrow> pystr list \<Rightarrow> pystr list \<Rightarrow> pystr list" where
  "translate_words terms translated_words [] = translated_words"
| "translate_words terms translated_words (word # words) =
     translate_words terms
       (translated_words @ [case terms word of Some v \<Rightarrow> v | None \<Rightarrow> word]) words"

text \<open>
  \<open>update_bengali_text\<close>, given the outcome of its call of the translator. It tests
  neither \<open>is_running\<close> nor \<open>is_paused\<close>, and invokes no callback. The result is the
  new state and the returned text.
\<close>

definition update_bengali_text :: "pystr \<Rightarrow> translation \<Rightarrow> pipeline \<Rightarrow> pipeline \<times> pystr" where
  "update_bengali_text text tr p =
     (let p1 = p\<lparr>current_bengali_text := text, trace := trace p @ [WriteBengali text]\<rparr>;
          english = (case tr of
                       Translated t \<Rightarrow> t
                     | TranslationError \<Rightarrow>
                         join space (translate_words (bengali_medical_terms p1) [] (split text)));
          p2 = p1\<lparr>current_english_text := english, trace := trace p1 @ [WriteEnglish english]\<rparr>
      in (p2, current_english_text p2))"

section \<open>The capture loop\<close>

text \<open>
  \<open>np.abs\<close> on an \<open>int16\<close> array stays in \<open>int16\<close>: the negation wraps, so the
  absolute value of \<open>-32768\<close> is \<open>-32768\<close>. \<open>mean()\<close> then adds the samples, read as
  signed integers, in double precision and divides by their number; the sum of the
  samples of a chunk is far below \<open>2 ^ 53\<close> and so exact. The mean of an empty array is
  NaN.
\<close>

definition np_abs :: "16 word \<Rightarrow> 16 word" where
  "np_abs x = (if sint x < 0 then - x else x)"

definition audio_level :: "frame \<Rightarrow> level" where
  "audio_level audio_array =
     (if audio_array = [] then None
      else Some (real_of_int (sum_list (map (\<lambda>x. sint (np_abs x)) audio_array))
                   / real (length audio_array) / 32768))"

text \<open>
  One iteration of the \<open>while self.is_running\<close> loop of \<open>_recording_loop\<close> when no
  other thread acts during it, given what \<open>stream.read\<close> would return (\<open>None\<close> when
  it raises, which ends the loop in the handler of the method). The boolean says whether
  the loop goes on.
\<close>

definition recording_step :: "frame option \<Rightarrow> pipeline \<Rightarrow> pipeline \<times> bool" where
  "recording_step rd p =
     (if \<not> is_running p then (p, False)
      else if \<not> is_paused p then
        (case rd of
           None \<Rightarrow> (p\<lparr>trace := trace p @ [StreamRead]\<rparr>, False)
         | Some data \<Rightarrow>
             (p\<lparr>audio_queue := audio_queue p @ [(data, audio_level data)],
                trace := trace p @ [StreamRead]\<rparr>, True))
      else (p\<lparr>trace := trace p @ [Sleep RecordingLoop]\<rparr>, True))"

text \<open>
  The iteration is not indivisible: it tests the two flags once, at its head, and then
  blocks in \<open>stream.read\<close> for the duration of a chunk before it puts the frame on the
  queue, and another thread can set a flag in between. So the capture thread is also
  modelled by its two steps, and by where it stands between them: about to test the flags,
  past the test and in the read, or out of the loop.
\<close>

datatype capture_pc = AtTest | AtRead | Ended

definition capture_test :: "pipeline \<Rightarrow> pipeline \<times> capture_pc" where
  "capture_test p =
     (if \<not> is_running p then (p, Ended)
      else if \<not> is_paused p then (p, AtRead)
      else (p\<lparr>trace := trace p @ [Sleep RecordingLoop]\<rparr>, AtTest))"

definition capture_read :: "frame option \<Rightarrow> pipeline \<Rightarrow> pipeline \<times> capture_pc" where
  "capture_read rd p =
     (case rd of
        None \<Rightarrow> (p\<lparr>trace := trace p @ [StreamRead]\<rparr>, Ended)
      | Some data \<Rightarrow>
          (p\<lparr>audio_queue := audio_queue p @ [(data, audio_level data)],
             trace := trace p @ [StreamRead]\<rparr>, AtTest))"

text \<open>The next step of the capture thread; the frame is used when the step is the read.\<close>

fun capture_step :: "frame option \<Rightarrow> pipeline \<times> capture_pc \<Rightarrow> pipeline \<times> capture_pc" where
  "capture_step rd (p, AtTest) = capture_test p"
| "capture_step rd (p, AtRead) = capture_read rd p"
| "capture_step rd (p, Ended) = (p, Ended)"

section \<open>The processing loop\<close>

text \<open>The local variables of \<open>_processing_loop\<close>.\<close>

record assembler =
  audio_buffer :: "frame list"
  last_process_time :: real

text \<open>
  What one iteration meets: the clock read at its head, whether the temporary file and the
  WAV are written without an exception, and the outcomes of the two services. Clock
  readings are real numbers: two readings of the epoch clock \<open>time.time()\<close> are doubles
  of one magnitude, whose difference is computed exactly.
\<close>

record cycle_env =
  current_time :: real
  wav_written :: bool
  recognized :: recognition
  translated :: translation

text \<open>The inner loop that empties the queue into the buffer, oldest frame first.\<close>

fun drain :: "(frame \<times> level) list \<Rightarrow> frame list \<Rightarrow> frame list" where
  "drain [] buf = buf"
| "drain ((data, lvl) # q) buf = drain q (buf @ [data])"

definition notify_bengali :: "pipeline \<Rightarrow> pipeline" where
  "notify_bengali p =
     (if on_bengali_update p
      then p\<lparr>trace := trace p @ [BengaliUpdate (current_bengali_text p)]\<rparr> else p)"

definition notify_english :: "pipeline \<Rightarrow> pipeline" where
  "notify_english p =
     (if on_english_update p
      then p\<lparr>trace := trace p @ [EnglishUpdate (current_english_text p)]\<rparr> else p)"

definition set_bengali :: "pystr \<Rightarrow> pipeline \<Rightarrow> pipeline" where
  "set_bengali s p = p\<lparr>current_bengali_text := s, trace := trace p @ [WriteBengali s]\<rparr>"

definition set_english :: "pystr \<Rightarrow> pipeline \<Rightarrow> pipeline" where
  "set_english s p = p\<lparr>current_english_text := s, trace := trace p @ [WriteEnglish s]\<rparr>"

text \<open>
  The translation of a recognized text: on success the translation is appended (after a
  space unless the transcript is empty); on failure the whole text is looked up in the
  dictionary, and its value, if any, appended after a space.
\<close>

definition translate_text :: "translation \<Rightarrow> pystr \<Rightarrow> pipeline \<Rightarrow> pipeline" where
  "translate_text tr text p =
     (case tr of
        Translated english_text \<Rightarrow>
          notify_english
            (if current_english_text p = [] then set_english english_text p
             else set_english (current_english_text p @ space @ english_text) p)
      | TranslationError \<Rightarrow>
          (case bengali_medical_terms p text of
             Some english_text \<Rightarrow>
               notify_english (set_english (current_english_text p @ space @ english_text) p)
           | None \<Rightarrow> p))"

text \<open>The recognition of a written window and what follows from its outcome.\<close>

definition recognition_cycle :: "recognition \<Rightarrow> translation \<Rightarrow> pipeline \<Rightarrow> pipeline" where
  "recognition_cycle r tr p =
     (case r of
        Text text \<Rightarrow>
          if text \<noteq> [] then
            translate_text tr text
              (notify_bengali
                (if current_bengali_text p = [] then set_bengali text p
                 else set_bengali (current_bengali_text p @ space @ text) p))
          else p
      | UnknownValueError \<Rightarrow> p
      | RequestError \<Rightarrow> p
      | OtherError \<Rightarrow> p)"

fun run_cycles :: "(recognition \<times> translation) list \<Rightarrow> pipeline \<Rightarrow> pipeline" where
  "run_cycles [] p = p"
| "run_cycles ((r, tr) # cs) p = run_cycles cs (recognition_cycle r tr p)"

text \<open>
  One iteration of the \<open>while self.is_running\<close> loop of \<open>_processing_loop\<close>. The second
  component is \<open>None\<close> when the loop has ended: the flag was found false, or an exception
  of the file operations reached the handler of the method.
\<close>

definition processing_step :: "cycle_env \<Rightarrow> pipeline \<times> assembler \<Rightarrow> pipeline \<times> assembler option" where
  "processing_step env s =
     (case s of (p, a) \<Rightarrow>
        if \<not> is_running p then (p, None)
        else
          let buf = drain (audio_queue p) (audio_buffer a);
              p1 = p\<lparr>audio_queue := []\<rparr>
          in if buf \<noteq> [] \<and> current_time env - last_process_time a \<ge> 3 then
               if \<not> wav_written env then (p1, None)
               else
                 let p2 = p1\<lparr>trace := trace p1 @ [Cycle buf]\<rparr>;
                     p3 = recognition_cycle (recognized env) (translated env) p2
                 in (p3\<lparr>trace := trace p3 @ [Sleep ProcessingLoop]\<rparr>,
                     Some \<lparr>audio_buffer = [], last_process_time = current_time env\<rparr>)
             else (p1\<lparr>trace := trace p1 @ [Sleep ProcessingLoop]\<rparr>,
                   Some (a\<lparr>audio_buffer := buf\<rparr>)))"

text \<open>The windows handed to the recognizer, read off a trace.\<close>

fun cycles_of :: "event list \<Rightarrow> frame list list" where
  "cycles_of [] = []"
| "cycles_of (Cycle w # es) = w # cycles_of es"
| "cycles_of (e # es) = cycles_of es"

text \<open>The texts passed to either callback, read off a trace.\<close>

fun notified :: "event list \<Rightarrow> pystr list" where
  "notified [] = []"
| "notified (BengaliUpdate s # es) = s # notified es"
| "notified (EnglishUpdate s # es) = s # notified es"
| "notified (e # es) = notified es"

section \<open>The control operations\<close>

definition start :: "pipeline \<Rightarrow> pipeline" where
  "start p =
     (let p1 = p\<lparr>is_running := True, is_paused := False\<rparr>;
          p2 = p1\<lparr>recording_thread := Some (length (threads p1)),
                  threads := threads p1 @ [RecordingLoop]\<rparr>;
          p3 = p2\<lparr>processing_thread := Some (length (threads p2)),
                  threads := threads p2 @ [ProcessingLoop]\<rparr>
      in p3)"

definition stop :: "pipeline \<Rightarrow> pipeline \<times> (pystr \<times> pystr)" where
  "stop p =
     (let p1 = p\<lparr>is_running := False, is_paused := False\<rparr>;
          p2 = (if recording_thread p1 \<noteq> None then p1\<lparr>recording_thread := None\<rparr> else p1);
          p3 = (if processing_thread p2 \<noteq> None then p2\<lparr>processing_thread := None\<rparr> else p2)
      in (p3, (current_bengali_text p3, current_english_text p3)))"

definition pause :: "pipeline \<Rightarrow> pipeline" where
  "pause p = p\<lparr>is_paused := True\<rparr>"

definition resume :: "pipeline \<Rightarrow> pipeline" where
  "resume p = p\<lparr>is_paused := False\<rparr>"

text \<open>
  The operations on one pipeline object, in any interleaving: the four controls, the
  registration of the callbacks by \<open>TranscriptionWorker\<close>, a manual edit, and an
  iteration of either loop (the processing loop with its local variables), or the read
  and put alone of a capture thread that is past its test.
\<close>

datatype action =
    Start | Stop | Pause | Resume | Connect
  | Edit pystr translation
  | Capture "frame option"
  | Read "frame option"
  | Process cycle_env assembler

fun exec :: "action \<Rightarrow> pipeline \<Rightarrow> pipeline" where
  "exec Start p = start p"
| "exec Stop p = fst (stop p)"
| "exec Pause p = pause p"
| "exec Resume p = resume p"
| "exec Connect p = p\<lparr>on_bengali_update := True, on_english_update := True\<rparr>"
| "exec (Edit text tr) p = fst (update_bengali_text text tr p)"
| "exec (Capture rd) p = fst (recording_step rd p)"
| "exec (Read rd) p = fst (capture_read rd p)"
| "exec (Process env a) p = fst (processing_step env (p, a))"

fun run :: "action list \<Rightarrow> pipeline \<Rightarrow> pipeline" where
  "run [] p = p"
| "run (x # xs) p = run xs (exec x p)"

text \<open>
  One capture thread running beside the other threads: each move is the next step of the
  capture thread or an operation of another thread on the pipeline.
\<close>

datatype move = CaptureStep "frame option" | Other action

fun interleave :: "move list \<Rightarrow> pipeline \<times> capture_pc \<Rightarrow> pipeline \<times> capture_pc" where
  "interleave [] s = s"
| "interleave (CaptureStep rd # ms) s = interleave ms (capture_step rd s)"
| "interleave (Other x # ms) s = interleave ms (exec x (fst s), snd s)"

section \<open>The handlers of the main window\<close>

text \<open>
  The part of \<open>MainWindow\<close> the handlers below read and write: the worker (\<open>None\<close> when
  there is none, otherwise whether its thread is running), the pipeline, the two text
  panels, the session entries, and the texts for which a \<open>delayed_translation\<close> is
  pending on a timer. Buttons, status bar and level display are left out.
\<close>

record main_window =
  worker :: "bool option"
  pipeline :: pipeline
  bengali_text :: pystr
  english_text :: pystr
  session_bengali :: pystr
  session_english :: pystr
  timers :: "pystr list"

text \<open>
  \<open>start_recording\<close>. The new worker registers the callbacks when it is constructed, and
  its thread calls \<open>pipeline.start()\<close> when it runs, taken here in one step with the
  handler.
\<close>

definition start_recording :: "main_window \<Rightarrow> main_window" where
  "start_recording w =
     (if worker w = Some True then w
      else w\<lparr>worker := Some True,
             pipeline := start ((pipeline w)\<lparr>on_bengali_update := True,
                                            on_english_update := True\<rparr>)\<rparr>)"

definition on_bengali_edited :: "main_window \<Rightarrow> main_window" where
  "on_bengali_edited w =
     (if worker w = Some True then w
      else
        let text = bengali_text w;
            w1 = w\<lparr>session_bengali := text\<rparr>
        in if text \<noteq> [] then w1\<lparr>timers := timers w1 @ [text]\<rparr> else w1)"

text \<open>
  The oldest pending \<open>delayed_translation\<close> fires: it calls the pipeline and shows the
  result, without looking at the worker again.
\<close>

definition delayed_translation :: "translation \<Rightarrow> main_window \<Rightarrow> main_window" where
  "delayed_translation tr w =
     (case timers w of
        [] \<Rightarrow> w
      | text # ts \<Rightarrow>
          (case update_bengali_text text tr (pipeline w) of
             (p, english) \<Rightarrow>
               w\<lparr>timers := ts, pipeline := p, english_text := english,
                 session_english := english\<rparr>))"

section \<open>Notation for the examples\<close>

text \<open>An ASCII literal as a Python string.\<close>

definition str :: "string \<Rightarrow> pystr" where
  "str s = map of_char s"

text \<open>
  The three Bengali words of the fallback example, by their code points, and the phrase
  they form.
\<close>

definition amar :: pystr where
  "amar = [2438, 2478, 2494, 2480]"

definition byatha :: pystr where
  "byatha = [2476, 2509, 2479, 2469, 2494]"

definition achhe :: pystr where
  "achhe = [2438, 2459, 2503]"

definition amar_byatha_achhe :: pystr where
  "amar_byatha_achhe = amar @ space @ byatha @ space @ achhe"

text \<open>What the claims say of the fallback: a token that is a key is replaced, any other kept.\<close>

definition substitute :: "(pystr \<rightharpoonup> pystr) \<Rightarrow> pystr \<Rightarrow> pystr" where
  "substitute terms word = (if word \<in> dom terms then the (terms word) else word)"

section \<open>Auxiliary facts\<close>

lemma translate_words_map:
  "translate_words terms acc ws = acc @ map (substitute terms) ws"
  by (induction ws arbitrary: acc) (auto simp: substitute_def split: option.splits)

lemma split_example: "split amar_byatha_achhe = [amar, byatha, achhe]"
  by (simp add: split_def amar_byatha_achhe_def amar_def byatha_def achhe_def isspace_def)

lemma drain_eq: "drain q buf = buf @ map fst q"
  by (induction q arbitrary: buf) auto

lemma split_from_tokens:
  "\<forall>c\<in>set v. \<not> isspace c \<Longrightarrow>
   \<forall>w\<in>set (split_from v cs). w \<noteq> [] \<and> (\<forall>c\<in>set w. \<not> isspace c)"
proof (induction cs arbitrary: v)
  case Nil
  then show ?case by simp
next
  case (Cons a cs)
  show ?case
  proof (cases "isspace a")
    case True
    have "\<forall>w\<in>set (split_from [] cs). w \<noteq> [] \<and> (\<forall>c\<in>set w. \<not> isspace c)"
      by (rule Cons.IH) simp
    with True Cons.prems show ?thesis by simp
  next
    case False
    have "\<forall>w\<in>set (split_from (v @ [a]) cs). w \<noteq> [] \<and> (\<forall>c\<in>set w. \<not> isspace c)"
      by (rule Cons.IH) (use False Cons.prems in simp)
    with False show ?thesis by simp
  qed
qed

lemma split_from_concat:
  "concat (split_from v cs) = v @ filter (\<lambda>c. \<not> isspace c) cs"
  by (induction cs arbitrary: v) auto

text \<open>
  The tokens of \<open>split\<close> are non-empty and free of whitespace, and together they are
  the text without its whitespace.
\<close>

lemma split_tokens:
  "\<forall>w\<in>set (split text). w \<noteq> [] \<and> (\<forall>c\<in>set w. \<not> isspace c)"
  unfolding split_def by (rule split_from_tokens) simp

lemma split_concat:
  "concat (split text) = filter (\<lambda>c. \<not> isspace c) text"
  by (simp add: split_def split_from_concat)

lemma join_append_head:
  "join sep ((b @ sep @ t) # ts) = join sep (b # t # ts)"
  by (cases ts) auto

lemma cycle_bengali:
  "t \<noteq> [] \<Longrightarrow> current_bengali_text (recognition_cycle (Text t) tr p)
     = (if current_bengali_text p = [] then t else current_bengali_text p @ space @ t)"
  by (auto simp: recognition_cycle_def translate_text_def notify_bengali_def notify_english_def
      set_bengali_def set_english_def split: translation.splits option.splits)

lemma cycle_english:
  "t \<noteq> [] \<Longrightarrow> current_english_text (recognition_cycle (Text t) (Translated e) p)
     = (if current_english_text p = [] then e else current_english_text p @ space @ e)"
  by (auto simp: recognition_cycle_def translate_text_def notify_bengali_def notify_english_def
      set_bengali_def set_english_def)

lemma cycle_trace:
  "t \<noteq> [] \<Longrightarrow> trace (recognition_cycle (Text t) (Translated e) p)
     = trace p
       @ [WriteBengali (if current_bengali_text p = [] then t else current_bengali_text p @ space @ t)]
       @ (if on_bengali_update p
          then [BengaliUpdate (if current_bengali_text p = [] then t else current_bengali_text p @ space @ t)]
          else [])
       @ [WriteEnglish (if current_english_text p = [] then e else current_english_text p @ space @ e)]
       @ (if on_english_update p
          then [EnglishUpdate (if current_english_text p = [] then e else current_english_text p @ space @ e)]
          else [])"
  by (auto simp: recognition_cycle_def translate_text_def notify_bengali_def notify_english_def
      set_bengali_def set_english_def)

lemma run_cycles_bengali:
  "\<forall>(t, e)\<in>set ces. t \<noteq> [] \<Longrightarrow> current_bengali_text p \<noteq> [] \<Longrightarrow>
   current_bengali_text (run_cycles (map (\<lambda>(t, e). (Text t, Translated e)) ces) p)
     = join space (current_bengali_text p # map fst ces)"
proof (induction ces arbitrary: p)
  case Nil
  then show ?case by simp
next
  case (Cons ce ces)
  obtain t e where ce: "ce = (t, e)" by (cases ce)
  with Cons.prems have t: "t \<noteq> []" by simp
  let ?q = "recognition_cycle (Text t) (Translated e) p"
  have q: "current_bengali_text ?q = current_bengali_text p @ space @ t"
    using t Cons.prems(2) by (simp add: cycle_bengali)
  have "current_bengali_text (run_cycles (map (\<lambda>(t, e). (Text t, Translated e)) ces) ?q)
          = join space (current_bengali_text ?q # map fst ces)"
    using Cons.prems(1) q by (intro Cons.IH) auto
  then show ?case
    using join_append_head [of space "current_bengali_text p" t "map fst ces"]
    by (simp add: ce q)
qed

lemma run_cycles_english:
  "\<forall>(t, e)\<in>set ces. t \<noteq> [] \<Longrightarrow> current_english_text p \<noteq> [] \<Longrightarrow>
   current_english_text (run_cycles (map (\<lambda>(t, e). (Text t, Translated e)) ces) p)
     = join space (current_english_text p # map snd ces)"
proof (induction ces arbitrary: p)
  case Nil
  then show ?case by simp
next
  case (Cons ce ces)
  obtain t e where ce: "ce = (t, e)" by (cases ce)
  with Cons.prems have t: "t \<noteq> []" by simp
  let ?q = "recognition_cycle (Text t) (Translated e) p"
  have q: "current_english_text ?q = current_english_text p @ space @ e"
    using t Cons.prems(2) by (simp add: cycle_english)
  have "current_english_text (run_cycles (map (\<lambda>(t, e). (Text t, Translated e)) ces) ?q)
          = join space (current_english_text ?q # map snd ces)"
    using Cons.prems(1) q by (intro Cons.IH) auto
  then show ?case
    using join_append_head [of space "current_english_text p" e "map snd ces"]
    by (simp add: ce q)
qed

lemma notified_append: "notified (xs @ ys) = notified xs @ notified ys"
  by (induction xs rule: notified.induct) auto

lemma cycles_of_append: "cycles_of (xs @ ys) = cycles_of xs @ cycles_of ys"
  by (induction xs rule: cycles_of.induct) auto

lemma cycles_of_recognition_cycle:
  "cycles_of (trace (recognition_cycle r tr p)) = cycles_of (trace p)"
  by (auto simp: recognition_cycle_def translate_text_def notify_bengali_def notify_english_def
      set_bengali_def set_english_def cycles_of_append
      split: recognition.splits translation.splits option.splits)

lemma terms_recognition_cycle:
  "bengali_medical_terms (recognition_cycle r tr p) = bengali_medical_terms p"
  by (auto simp: recognition_cycle_def translate_text_def notify_bengali_def notify_english_def
      set_bengali_def set_english_def
      split: recognition.splits translation.splits option.splits)

lemma terms_exec: "bengali_medical_terms (exec x p) = bengali_medical_terms p"
proof (cases x)
  case (Process env a)
  then show ?thesis
    by (simp add: processing_step_def Let_def terms_recognition_cycle)
next
  case (Capture rd)
  then show ?thesis
    by (simp add: recording_step_def split: option.splits)
next
  case (Read rd)
  then show ?thesis
    by (simp add: capture_read_def split: option.splits)
qed (simp_all add: start_def stop_def pause_def resume_def update_bengali_text_def Let_def)

lemma terms_run: "bengali_medical_terms (run xs p) = bengali_medical_terms p"
  by (induction xs arbitrary: p) (simp_all add: terms_exec)

lemma cycle_without_fallback:
  "t \<noteq> [] \<Longrightarrow> t \<notin> dom (bengali_medical_terms p) \<Longrightarrow>
   current_bengali_text (recognition_cycle (Text t) TranslationError p)
     = (if current_bengali_text p = [] then t else current_bengali_text p @ space @ t)
   \<and> current_english_text (recognition_cycle (Text t) TranslationError p)
     = current_english_text p"
  by (auto simp: recognition_cycle_def translate_text_def notify_bengali_def notify_english_def
      set_bengali_def set_english_def domIff)

lemma recognition_cycle_texts:
  "current_bengali_text (recognition_cycle r tr (p\<lparr>audio_queue := q, trace := es\<rparr>))
     = current_bengali_text (recognition_cycle r tr p)
   \<and> current_english_text (recognition_cycle r tr (p\<lparr>audio_queue := q, trace := es\<rparr>))
     = current_english_text (recognition_cycle r tr p)"
  by (auto simp: recognition_cycle_def translate_text_def notify_bengali_def notify_english_def
      set_bengali_def set_english_def
      split: recognition.splits translation.splits option.splits)

lemma recognition_cycle_notified:
  "notified es = notified (trace p) \<Longrightarrow>
   notified (trace (recognition_cycle r tr (p\<lparr>audio_queue := q, trace := es\<rparr>)))
     = notified (trace (recognition_cycle r tr p))"
  by (auto simp: recognition_cycle_def translate_text_def notify_bengali_def notify_english_def
      set_bengali_def set_english_def notified_append
      split: recognition.splits translation.splits option.splits)

text \<open>An uninterrupted iteration of the capture loop is its test followed by its read.\<close>

lemma recording_step_steps:
  "recording_step rd p
     = (case capture_test p of
          (q, AtTest) \<Rightarrow> (q, True)
        | (q, AtRead) \<Rightarrow> (fst (capture_read rd q), snd (capture_read rd q) = AtTest)
        | (q, Ended) \<Rightarrow> (q, False))"
  by (simp add: recording_step_def capture_test_def capture_read_def split: option.splits)

lemma interleave_paused:
  "is_running p \<Longrightarrow> is_paused p \<Longrightarrow>
   interleave (map CaptureStep rds) (p, AtTest)
     = (p\<lparr>trace := trace p @ replicate (length rds) (Sleep RecordingLoop)\<rparr>, AtTest)"
proof (induction rds arbitrary: p)
  case Nil
  then show ?case by simp
next
  case (Cons rd rds)
  let ?q = "p\<lparr>trace := trace p @ [Sleep RecordingLoop]\<rparr>"
  have step: "capture_test p = (?q, AtTest)"
    using Cons.prems by (simp add: capture_test_def)
  have "interleave (map CaptureStep rds) (?q, AtTest)
          = (?q\<lparr>trace := trace ?q @ replicate (length rds) (Sleep RecordingLoop)\<rparr>, AtTest)"
    by (rule Cons.IH) (use Cons.prems in simp_all)
  then show ?case by (simp add: step)
qed

lemma processing_step_ignores_is_paused:
  "processing_step env (p\<lparr>is_paused := b\<rparr>, a)
     = (fst (processing_step env (p, a))\<lparr>is_paused := b\<rparr>, snd (processing_step env (p, a)))"
  by (auto simp: processing_step_def Let_def recognition_cycle_def translate_text_def
      notify_bengali_def notify_english_def set_bengali_def set_english_def
      split: recognition.splits translation.splits option.splits)

text \<open>
  Apart from the sample \<open>-32768\<close> the 16-bit absolute value is the absolute value, and
  the level of a non-empty chunk without that sample lies between 0 and 1.
\<close>

lemma np_abs_range:
  fixes x :: "16 word"
  assumes "x \<noteq> - 32768"
  shows "0 \<le> sint (np_abs x) \<and> sint (np_abs x) \<le> 32767"
proof (cases "sint x < 0")
  case False
  with sint_lt [of x] show ?thesis by (simp add: np_abs_def)
next
  case True
  have "sint x \<noteq> - 32768"
  proof
    assume "sint x = - 32768"
    then have "word_of_int (sint x) = (word_of_int (- 32768) :: 16 word)" by simp
    then have "x = - 32768" by simp
    with assms show False by simp
  qed
  with sint_ge [of x] True have r: "- (2 ^ 15) \<le> - sint x" "- sint x < 2 ^ 15" "0 \<le> - sint x"
    by simp_all
  have "sint (- x) = signed_take_bit 15 (- sint x)"
    by (simp add: sint_word_minus)
  also have "\<dots> = - sint x"
    using r(1,2) by (rule signed_take_bit_int_eq_self)
  finally show ?thesis using True r by (simp add: np_abs_def)
qed

lemma sum_list_bounds:
  fixes f :: "'a \<Rightarrow> int"
  assumes "\<forall>x\<in>set xs. 0 \<le> f x \<and> f x \<le> c"
  shows "0 \<le> sum_list (map f xs) \<and> sum_list (map f xs) \<le> c * int (length xs)"
  using assms by (induction xs) (auto simp: algebra_simps)

lemma audio_level_range:
  assumes "audio_array \<noteq> []" and "- 32768 \<notin> set audio_array"
  shows "\<exists>l. audio_level audio_array = Some l \<and> 0 \<le> l \<and> l \<le> 1"
proof -
  let ?s = "sum_list (map (\<lambda>x. sint (np_abs x)) audio_array)"
  let ?n = "length audio_array"
  have "\<forall>x\<in>set audio_array. 0 \<le> sint (np_abs x) \<and> sint (np_abs x) \<le> 32767"
    using assms(2) np_abs_range by metis
  from sum_list_bounds [OF this] have s: "0 \<le> ?s" "?s \<le> 32767 * int ?n" by simp_all
  have n: "0 < real ?n" using assms(1) by simp
  have "real_of_int ?s \<le> 32767 * real ?n" using s(2) by linarith
  also have "\<dots> \<le> 32768 * real ?n" by simp
  finally have "real_of_int ?s / real ?n \<le> 32768" using n by (simp add: pos_divide_le_eq)
  then have "real_of_int ?s / real ?n / 32768 \<le> 1" by simp
  moreover have "0 \<le> real_of_int ?s / real ?n / 32768" using s(1) by simp
  ultimately show ?thesis using assms(1) by (simp add: audio_level_def)
qed

section \<open>The manual edit when the translator fails\<close>

text \<open>
  Claim C4. When the translation service fails in \<open>update_bengali_text\<close>, the source
  transcript is the given text verbatim, and the target transcript is the text split on
  whitespace, each token that is a key of the dictionary replaced by its value and every
  other token kept, joined by single spaces; that target transcript is what the call
  returns. With the dictionary mapping only the Bengali word for pain to \<open>pain\<close>, the
  phrase of the example becomes its first word, \<open>pain\<close> and its third word.
\<close>

theorem update_bengali_text_fallback:
  "current_bengali_text (fst (update_bengali_text text TranslationError p)) = text
   \<and> current_english_text (fst (update_bengali_text text TranslationError p))
       = join space (map (substitute (bengali_medical_terms p)) (split text))
   \<and> snd (update_bengali_text text TranslationError p)
       = join space (map (substitute (bengali_medical_terms p)) (split text))
   \<and> snd (update_bengali_text amar_byatha_achhe TranslationError
        (p\<lparr>bengali_medical_terms := [byatha \<mapsto> str ''pain'']\<rparr>))
       = amar @ space @ str ''pain'' @ space @ achhe"
  by (simp add: update_bengali_text_def Let_def translate_words_map split_example substitute_def
      amar_def byatha_def achhe_def)

section \<open>Cycles that recognize and translate\<close>

text \<open>
  Claim C2, as amended. Take any finite sequence of cycles, each recognizing a non-empty
  text and each translated, run from empty transcripts, the translation of the first
  cycle being non-empty. Then the source transcript is the recognized texts joined by
  single spaces and the target transcript is the translations joined by single spaces.
  Within any such cycle, whatever the state it starts from, the effects are, in this
  order and each once: the assignment of the extended source transcript, the source
  callback with it (when one is registered), the assignment of the extended target
  transcript, the target callback with it (when one is registered).
\<close>

theorem successful_cycles_joined:
  assumes "\<forall>(t, e)\<in>set ces. t \<noteq> []"
    and "ces \<noteq> [] \<longrightarrow> snd (hd ces) \<noteq> []"
    and "current_bengali_text p = []" and "current_english_text p = []"
  shows "current_bengali_text (run_cycles (map (\<lambda>(t, e). (Text t, Translated e)) ces) p)
           = join space (map fst ces)
       \<and> current_english_text (run_cycles (map (\<lambda>(t, e). (Text t, Translated e)) ces) p)
           = join space (map snd ces)
       \<and> (t' \<noteq> [] \<longrightarrow>
            trace (recognition_cycle (Text t') (Translated e') q)
              = trace q
                @ [WriteBengali (if current_bengali_text q = [] then t'
                                 else current_bengali_text q @ space @ t')]
                @ (if on_bengali_update q
                   then [BengaliUpdate (if current_bengali_text q = [] then t'
                                        else current_bengali_text q @ space @ t')]
                   else [])
                @ [WriteEnglish (if current_english_text q = [] then e'
                                 else current_english_text q @ space @ e')]
                @ (if on_english_update q
                   then [EnglishUpdate (if current_english_text q = [] then e'
                                        else current_english_text q @ space @ e')]
                   else []))"
proof (cases ces)
  case Nil
  with assms show ?thesis by (simp add: cycle_trace)
next
  case (Cons ce ces')
  obtain t e where ce: "ce = (t, e)" by (cases ce)
  from assms ce Cons have t: "t \<noteq> []" and e: "e \<noteq> []" and rest: "\<forall>(t, e)\<in>set ces'. t \<noteq> []"
    by auto
  let ?q = "recognition_cycle (Text t) (Translated e) p"
  have b: "current_bengali_text ?q = t" using t assms(3) by (simp add: cycle_bengali)
  have en: "current_english_text ?q = e" using t assms(4) by (simp add: cycle_english)
  have texts: "current_bengali_text (run_cycles (map (\<lambda>(t, e). (Text t, Translated e)) ces) p)
           = join space (map fst ces)
       \<and> current_english_text (run_cycles (map (\<lambda>(t, e). (Text t, Translated e)) ces) p)
           = join space (map snd ces)"
    using run_cycles_bengali [OF rest, of ?q] run_cycles_english [OF rest, of ?q] t e
    by (simp add: Cons ce b en)
  then show ?thesis by (simp add: cycle_trace)
qed

text \<open>
  The scenario of the specification: \<open>one\<close>, \<open>two\<close>, \<open>three\<close> translated as \<open>ek\<close>,
  \<open>dui\<close>, \<open>tin\<close>, from a new pipeline.
\<close>

theorem successful_cycles_joined_witness:
  "current_bengali_text
     (run_cycles [(Text (str ''one''), Translated (str ''ek'')),
                  (Text (str ''two''), Translated (str ''dui'')),
                  (Text (str ''three''), Translated (str ''tin''))] init)
     = str ''one two three''
   \<and> current_english_text
     (run_cycles [(Text (str ''one''), Translated (str ''ek'')),
                  (Text (str ''two''), Translated (str ''dui'')),
                  (Text (str ''three''), Translated (str ''tin''))] init)
     = str ''ek dui tin''
   \<and> trace (recognition_cycle (Text (str ''one'')) (Translated (str ''ek'')) init)
     = [WriteBengali (str ''one''), WriteEnglish (str ''ek'')]"
  using successful_cycles_joined
    [of "[(str ''one'', str ''ek''), (str ''two'', str ''dui''), (str ''three'', str ''tin'')]"
        init "str ''one''" "str ''ek''" init]
  by (simp add: init_def str_def)

text \<open>
  The claim as it is written fails when a translation is the empty string while the target
  transcript is still empty: the next translation is then assigned, not appended after a
  space, whereas joining the two translations puts a space before it.
\<close>

theorem empty_translation_not_joined:
  "current_english_text
     (run_cycles [(Text (str ''one''), Translated []),
                  (Text (str ''two''), Translated (str ''dui''))] init)
     = str ''dui''
   \<and> join space [[], str ''dui''] = str '' dui''
   \<and> current_english_text
     (run_cycles [(Text (str ''one''), Translated []),
                  (Text (str ''two''), Translated (str ''dui''))] init)
     \<noteq> join space [[], str ''dui'']"
  by (simp add: init_def str_def recognition_cycle_def translate_text_def notify_bengali_def
      notify_english_def set_bengali_def set_english_def)

section \<open>The level of a frame\<close>

text \<open>
  Claim C9. The level of a captured frame is meant to lie between 0 and 1. It does not for
  a chunk of 1024 samples that are all \<open>-32768\<close>: the 16-bit absolute value of each
  sample is \<open>-32768\<close> again, so the mean is \<open>-32768\<close> and the level \<open>-1\<close>.
\<close>

theorem audio_level_of_lowest_samples:
  "audio_level (replicate 1024 (- 32768)) = Some (- 1)"
  by (simp add: audio_level_def np_abs_def sum_list_replicate o_def)

section \<open>A cycle whose translation fails\<close>

text \<open>
  Claim C5. In a cycle that recognizes a non-empty text \<open>t\<close> which is not a key of the
  dictionary and whose translation fails, the source transcript is extended by \<open>t\<close>
  (after a space unless it was empty) and the target transcript is left as it was. This
  holds of the cycle itself and of the loop iteration that runs it.
\<close>

theorem translation_failure_without_fallback:
  assumes "t \<noteq> []" and "t \<notin> dom (bengali_medical_terms p)"
  shows "current_bengali_text (recognition_cycle (Text t) TranslationError p)
           = (if current_bengali_text p = [] then t else current_bengali_text p @ space @ t)
       \<and> current_english_text (recognition_cycle (Text t) TranslationError p)
           = current_english_text p
       \<and> (is_running p \<and> (audio_buffer a \<noteq> [] \<or> audio_queue p \<noteq> [])
            \<and> current_time env - last_process_time a \<ge> 3 \<and> wav_written env
            \<and> recognized env = Text t \<and> translated env = TranslationError \<longrightarrow>
          current_bengali_text (fst (processing_step env (p, a)))
            = (if current_bengali_text p = [] then t else current_bengali_text p @ space @ t)
          \<and> current_english_text (fst (processing_step env (p, a))) = current_english_text p)"
proof -
  let ?q = "p\<lparr>audio_queue := [],
               trace := trace p @ [Cycle (audio_buffer a @ map fst (audio_queue p))]\<rparr>"
  have "t \<notin> dom (bengali_medical_terms ?q)" using assms(2) by simp
  from cycle_without_fallback [OF assms(1) this] cycle_without_fallback [OF assms]
  show ?thesis
    by (auto simp: processing_step_def Let_def drain_eq)
qed

theorem translation_failure_without_fallback_witness:
  "str ''two'' \<noteq> [] \<and> str ''two'' \<notin> dom (bengali_medical_terms init)
   \<and> current_bengali_text (recognition_cycle (Text (str ''two'')) TranslationError
        (init\<lparr>is_running := True, audio_queue := [([1, 2], Some 0)],
              current_bengali_text := str ''one'', current_english_text := str ''ek''\<rparr>))
       = str ''one two''
   \<and> current_english_text (recognition_cycle (Text (str ''two'')) TranslationError
        (init\<lparr>is_running := True, audio_queue := [([1, 2], Some 0)],
              current_bengali_text := str ''one'', current_english_text := str ''ek''\<rparr>))
       = str ''ek''
   \<and> current_bengali_text (fst (processing_step
        \<lparr>current_time = 3, wav_written = True, recognized = Text (str ''two''),
         translated = TranslationError\<rparr>
        (init\<lparr>is_running := True, audio_queue := [([1, 2], Some 0)],
              current_bengali_text := str ''one'', current_english_text := str ''ek''\<rparr>,
         \<lparr>audio_buffer = [], last_process_time = 0\<rparr>)))
       = str ''one two''
   \<and> current_english_text (fst (processing_step
        \<lparr>current_time = 3, wav_written = True, recognized = Text (str ''two''),
         translated = TranslationError\<rparr>
        (init\<lparr>is_running := True, audio_queue := [([1, 2], Some 0)],
              current_bengali_text := str ''one'', current_english_text := str ''ek''\<rparr>,
         \<lparr>audio_buffer = [], last_process_time = 0\<rparr>)))
       = str ''ek''"
  using translation_failure_without_fallback
    [of "str ''two''"
        "init\<lparr>is_running := True, audio_queue := [([1, 2], Some 0)],
              current_bengali_text := str ''one'', current_english_text := str ''ek''\<rparr>"
        "\<lparr>audio_buffer = [], last_process_time = 0\<rparr>"
        "\<lparr>current_time = 3, wav_written = True, recognized = Text (str ''two''),
         translated = TranslationError\<rparr>"]
  by (simp add: init_def str_def)

section \<open>A cycle whose recognition fails\<close>

text \<open>
  Claim C6. Take an iteration of the processing loop that hands a window to a recognition
  cycle and whose recognition ends in \<open>UnknownValueError\<close> or \<open>RequestError\<close>. Neither
  transcript changes and no callback is invoked: the only effects are the emptying of the
  queue, the cycle itself and the sleep. The window is gone afterwards, the next iteration
  starting from an empty buffer and from the time of this one, and the loop goes on.
\<close>

theorem recognition_failure_no_mutation:
  assumes "is_running p"
    and "audio_buffer a \<noteq> [] \<or> audio_queue p \<noteq> []"
    and "current_time env - last_process_time a \<ge> 3"
    and "wav_written env"
    and "recognized env = UnknownValueError \<or> recognized env = RequestError"
  shows "processing_step env (p, a)
           = (p\<lparr>audio_queue := [],
                trace := trace p @ [Cycle (audio_buffer a @ map fst (audio_queue p)),
                                    Sleep ProcessingLoop]\<rparr>,
              Some \<lparr>audio_buffer = [], last_process_time = current_time env\<rparr>)
       \<and> current_bengali_text (fst (processing_step env (p, a))) = current_bengali_text p
       \<and> current_english_text (fst (processing_step env (p, a))) = current_english_text p
       \<and> notified (trace (fst (processing_step env (p, a)))) = notified (trace p)
       \<and> is_running (fst (processing_step env (p, a)))"
  using assms
  by (auto simp: processing_step_def Let_def drain_eq recognition_cycle_def notified_append)

theorem recognition_failure_no_mutation_witness:
  "processing_step
     \<lparr>current_time = 3, wav_written = True, recognized = RequestError,
      translated = Translated (str ''ek'')\<rparr>
     (init\<lparr>is_running := True, audio_queue := [([1, 2], Some 0)],
           current_bengali_text := str ''one'', on_bengali_update := True,
           on_english_update := True\<rparr>,
      \<lparr>audio_buffer = [], last_process_time = 0\<rparr>)
     = (init\<lparr>is_running := True, current_bengali_text := str ''one'',
             on_bengali_update := True, on_english_update := True,
             trace := [Cycle [[1, 2]], Sleep ProcessingLoop]\<rparr>,
        Some \<lparr>audio_buffer = [], last_process_time = 3\<rparr>)"
  using recognition_failure_no_mutation
    [of "init\<lparr>is_running := True, audio_queue := [([1, 2], Some 0)],
              current_bengali_text := str ''one'', on_bengali_update := True,
              on_english_update := True\<rparr>"
        "\<lparr>audio_buffer = [], last_process_time = 0\<rparr>"
        "\<lparr>current_time = 3, wav_written = True, recognized = RequestError,
         translated = Translated (str ''ek'')\<rparr>"]
  by (simp add: init_def)

section \<open>When a window is handed to the recognizer\<close>

text \<open>
  Claim C7, as amended. Take an iteration of the processing loop that finds \<open>is_running\<close>
  true, and the buffer as it is once the queue has been emptied into it. A recognition
  cycle is run if and only if that buffer is non-empty, the clock read at the head of the
  iteration is at least 3 seconds past the last processing time, and the temporary WAV
  file is written without an exception; the window is then that buffer, the state after
  the iteration is the one the cycle leaves, and the next iteration starts from an empty
  buffer and from the clock read of this one. When the buffer is non-empty and the time
  has come but the writing of the file raises, nothing is recognized and the loop ends in
  the handler of the method. Otherwise nothing is recognized either: no transcript
  changes, no callback is invoked, the buffer is kept and so is the last processing time.
  An iteration that finds \<open>is_running\<close> false ends the loop with no effect at all,
  whatever the buffer holds and however long ago the window began.
\<close>

theorem window_dispatch:
  "(is_running p \<longrightarrow>
      processing_step env (p, a)
        = (if audio_buffer a @ map fst (audio_queue p) \<noteq> []
              \<and> current_time env - last_process_time a \<ge> 3
           then (if wav_written env
                 then (let q = recognition_cycle (recognized env) (translated env)
                                 (p\<lparr>audio_queue := [],
                                    trace := trace p
                                      @ [Cycle (audio_buffer a @ map fst (audio_queue p))]\<rparr>)
                       in (q\<lparr>trace := trace q @ [Sleep ProcessingLoop]\<rparr>,
                           Some \<lparr>audio_buffer = [], last_process_time = current_time env\<rparr>))
                 else (p\<lparr>audio_queue := []\<rparr>, None))
           else (p\<lparr>audio_queue := [], trace := trace p @ [Sleep ProcessingLoop]\<rparr>,
                 Some (a\<lparr>audio_buffer := audio_buffer a @ map fst (audio_queue p)\<rparr>)))
      \<and> current_bengali_text (fst (processing_step env (p, a)))
        = (if audio_buffer a @ map fst (audio_queue p) \<noteq> []
              \<and> current_time env - last_process_time a \<ge> 3 \<and> wav_written env
           then current_bengali_text (recognition_cycle (recognized env) (translated env) p)
           else current_bengali_text p)
      \<and> current_english_text (fst (processing_step env (p, a)))
        = (if audio_buffer a @ map fst (audio_queue p) \<noteq> []
              \<and> current_time env - last_process_time a \<ge> 3 \<and> wav_written env
           then current_english_text (recognition_cycle (recognized env) (translated env) p)
           else current_english_text p)
      \<and> notified (trace (fst (processing_step env (p, a))))
        = (if audio_buffer a @ map fst (audio_queue p) \<noteq> []
              \<and> current_time env - last_process_time a \<ge> 3 \<and> wav_written env
           then notified (trace (recognition_cycle (recognized env) (translated env) p))
           else notified (trace p))
      \<and> cycles_of (trace (fst (processing_step env (p, a))))
        = cycles_of (trace p)
          @ (if audio_buffer a @ map fst (audio_queue p) \<noteq> []
                \<and> current_time env - last_process_time a \<ge> 3 \<and> wav_written env
             then [audio_buffer a @ map fst (audio_queue p)] else []))
   \<and> (\<not> is_running p' \<longrightarrow> processing_step env' (p', a') = (p', None))"
  by (simp add: processing_step_def Let_def drain_eq cycles_of_append cycles_of_recognition_cycle
      recognition_cycle_texts recognition_cycle_notified notified_append)

text \<open>
  A running pipeline with one queued frame and a window begun at time 0. At time 3 the
  window is recognized as \<open>one\<close> and translated as \<open>ek\<close>; at time 2 the frame is kept
  in the buffer. A stopped pipeline whose loop still holds a frame from a window begun
  10 seconds ago: the loop ends and the frame is not recognized.
\<close>

theorem window_dispatch_witness:
  "is_running (init\<lparr>is_running := True, audio_queue := [([1, 2], Some 0)]\<rparr>)
   \<and> processing_step
        \<lparr>current_time = 3, wav_written = True, recognized = Text (str ''one''),
         translated = Translated (str ''ek'')\<rparr>
        (init\<lparr>is_running := True, audio_queue := [([1, 2], Some 0)]\<rparr>,
         \<lparr>audio_buffer = [], last_process_time = 0\<rparr>)
       = (init\<lparr>is_running := True, current_bengali_text := str ''one'',
               current_english_text := str ''ek'',
               trace := [Cycle [[1, 2]], WriteBengali (str ''one''), WriteEnglish (str ''ek''),
                         Sleep ProcessingLoop]\<rparr>,
          Some \<lparr>audio_buffer = [], last_process_time = 3\<rparr>)
   \<and> processing_step
        \<lparr>current_time = 2, wav_written = True, recognized = Text (str ''one''),
         translated = Translated (str ''ek'')\<rparr>
        (init\<lparr>is_running := True, audio_queue := [([1, 2], Some 0)]\<rparr>,
         \<lparr>audio_buffer = [], last_process_time = 0\<rparr>)
       = (init\<lparr>is_running := True, trace := [Sleep ProcessingLoop]\<rparr>,
          Some \<lparr>audio_buffer = [[1, 2]], last_process_time = 0\<rparr>)
   \<and> \<not> is_running init
   \<and> processing_step
        \<lparr>current_time = 10, wav_written = True, recognized = Text (str ''one''),
         translated = Translated (str ''ek'')\<rparr>
        (init, \<lparr>audio_buffer = [[1, 2]], last_process_time = 0\<rparr>)
       = (init, None)"
  using window_dispatch
    [of "init\<lparr>is_running := True, audio_queue := [([1, 2], Some 0)]\<rparr>"
        "\<lparr>current_time = 3, wav_written = True, recognized = Text (str ''one''),
         translated = Translated (str ''ek'')\<rparr>"
        "\<lparr>audio_buffer = [], last_process_time = 0\<rparr>"
        init
        "\<lparr>current_time = 10, wav_written = True, recognized = Text (str ''one''),
         translated = Translated (str ''ek'')\<rparr>"
        "\<lparr>audio_buffer = [[1, 2]], last_process_time = 0\<rparr>"]
    window_dispatch
    [of "init\<lparr>is_running := True, audio_queue := [([1, 2], Some 0)]\<rparr>"
        "\<lparr>current_time = 2, wav_written = True, recognized = Text (str ''one''),
         translated = Translated (str ''ek'')\<rparr>"
        "\<lparr>audio_buffer = [], last_process_time = 0\<rparr>"
        init
        "\<lparr>current_time = 10, wav_written = True, recognized = Text (str ''one''),
         translated = Translated (str ''ek'')\<rparr>"
        "\<lparr>audio_buffer = [[1, 2]], last_process_time = 0\<rparr>"]
  by (simp add: init_def str_def recognition_cycle_def translate_text_def notify_bengali_def
      notify_english_def set_bengali_def set_english_def)

text \<open>
  The claim as it is written fails when the temporary WAV file cannot be written: the
  buffer holds a frame and 3 seconds have passed, yet nothing is handed to the recognizer,
  no transcript changes although the recognizer would have returned a text, and the loop
  ends without a reset.
\<close>

theorem wav_failure_no_dispatch:
  "is_running (init\<lparr>is_running := True, audio_queue := [([1, 2], Some 0)]\<rparr>)
   \<and> audio_buffer \<lparr>audio_buffer = [], last_process_time = 0\<rparr>
       @ map fst (audio_queue (init\<lparr>is_running := True, audio_queue := [([1, 2], Some 0)]\<rparr>))
       \<noteq> []
   \<and> current_time \<lparr>current_time = 3, wav_written = False, recognized = Text (str ''one''),
         translated = Translated (str ''ek'')\<rparr>
       - last_process_time \<lparr>audio_buffer = [], last_process_time = 0\<rparr> \<ge> 3
   \<and> processing_step
        \<lparr>current_time = 3, wav_written = False, recognized = Text (str ''one''),
         translated = Translated (str ''ek'')\<rparr>
        (init\<lparr>is_running := True, audio_queue := [([1, 2], Some 0)]\<rparr>,
         \<lparr>audio_buffer = [], last_process_time = 0\<rparr>)
       = (init\<lparr>is_running := True\<rparr>, None)
   \<and> cycles_of (trace (init\<lparr>is_running := True\<rparr>)) = []
   \<and> current_bengali_text (init\<lparr>is_running := True\<rparr>) = []"
  by (simp add: processing_step_def Let_def init_def)

section \<open>The loops while paused\<close>

text \<open>
  Claim C8, as amended. A capture thread that tests the flags while the pipeline is
  running and paused only sleeps and returns to the test: it does not read the stream and
  leaves the queue as it is; so does any number of its steps while the flags stay so. A
  capture thread that is already in its read when the pipeline is paused completes the
  read and puts that one frame on the queue, and only sleeps from then on. The processing
  loop does not look at \<open>is_paused\<close>: its iteration does on a paused pipeline what it
  does on the same pipeline not paused; it empties the queue into its buffer, and the
  frames that were queued are part of the window it hands over when one is due, and of the
  buffer it keeps otherwise.
\<close>

theorem paused_capture_sleeps:
  assumes "is_running p" and "is_paused p"
  shows "capture_test p = (p\<lparr>trace := trace p @ [Sleep RecordingLoop]\<rparr>, AtTest)
       \<and> interleave (map CaptureStep rds) (p, AtTest)
           = (p\<lparr>trace := trace p @ replicate (length rds) (Sleep RecordingLoop)\<rparr>, AtTest)
       \<and> interleave (map CaptureStep (Some data # rds)) (p, AtRead)
           = (p\<lparr>audio_queue := audio_queue p @ [(data, audio_level data)],
                trace := trace p @ StreamRead # replicate (length rds) (Sleep RecordingLoop)\<rparr>,
              AtTest)
       \<and> processing_step env (p, a)
           = (fst (processing_step env (p\<lparr>is_paused := False\<rparr>, a))\<lparr>is_paused := True\<rparr>,
              snd (processing_step env (p\<lparr>is_paused := False\<rparr>, a)))
       \<and> audio_queue (fst (processing_step env (p, a))) = []
       \<and> snd (processing_step env (p, a))
           = (if audio_buffer a @ map fst (audio_queue p) \<noteq> []
                 \<and> current_time env - last_process_time a \<ge> 3
              then (if wav_written env
                    then Some \<lparr>audio_buffer = [], last_process_time = current_time env\<rparr>
                    else None)
              else Some (a\<lparr>audio_buffer := audio_buffer a @ map fst (audio_queue p)\<rparr>))
       \<and> cycles_of (trace (fst (processing_step env (p, a))))
           = cycles_of (trace p)
             @ (if audio_buffer a @ map fst (audio_queue p) \<noteq> []
                   \<and> current_time env - last_process_time a \<ge> 3 \<and> wav_written env
                then [audio_buffer a @ map fst (audio_queue p)] else [])"
proof -
  have 1: "capture_test p = (p\<lparr>trace := trace p @ [Sleep RecordingLoop]\<rparr>, AtTest)"
    using assms by (simp add: capture_test_def)
  have 2: "interleave (map CaptureStep rds) (p, AtTest)
           = (p\<lparr>trace := trace p @ replicate (length rds) (Sleep RecordingLoop)\<rparr>, AtTest)"
    using assms by (rule interleave_paused)
  let ?q = "p\<lparr>audio_queue := audio_queue p @ [(data, audio_level data)],
              trace := trace p @ [StreamRead]\<rparr>"
  have "interleave (map CaptureStep rds) (?q, AtTest)
          = (?q\<lparr>trace := trace ?q @ replicate (length rds) (Sleep RecordingLoop)\<rparr>, AtTest)"
    by (rule interleave_paused) (use assms in simp_all)
  then have 3: "interleave (map CaptureStep (Some data # rds)) (p, AtRead)
           = (p\<lparr>audio_queue := audio_queue p @ [(data, audio_level data)],
                trace := trace p @ StreamRead # replicate (length rds) (Sleep RecordingLoop)\<rparr>,
              AtTest)"
    by (simp add: capture_read_def)
  have "p = (p\<lparr>is_paused := False\<rparr>)\<lparr>is_paused := True\<rparr>"
    using assms(2) by simp
  then have 4: "processing_step env (p, a)
           = (fst (processing_step env (p\<lparr>is_paused := False\<rparr>, a))\<lparr>is_paused := True\<rparr>,
              snd (processing_step env (p\<lparr>is_paused := False\<rparr>, a)))"
    using processing_step_ignores_is_paused [where p = "p\<lparr>is_paused := False\<rparr>" and b = True]
    by simp
  have 5: "audio_queue (fst (processing_step env (p, a))) = []"
    using assms
    by (auto simp: processing_step_def Let_def recognition_cycle_def translate_text_def
        notify_bengali_def notify_english_def set_bengali_def set_english_def
        split: recognition.splits translation.splits option.splits)
  have 6: "snd (processing_step env (p, a))
           = (if audio_buffer a @ map fst (audio_queue p) \<noteq> []
                 \<and> current_time env - last_process_time a \<ge> 3
              then (if wav_written env
                    then Some \<lparr>audio_buffer = [], last_process_time = current_time env\<rparr>
                    else None)
              else Some (a\<lparr>audio_buffer := audio_buffer a @ map fst (audio_queue p)\<rparr>))"
    using assms by (simp add: processing_step_def Let_def drain_eq)
  have 7: "cycles_of (trace (fst (processing_step env (p, a))))
           = cycles_of (trace p)
             @ (if audio_buffer a @ map fst (audio_queue p) \<noteq> []
                   \<and> current_time env - last_process_time a \<ge> 3 \<and> wav_written env
                then [audio_buffer a @ map fst (audio_queue p)] else [])"
    using assms
    by (simp add: processing_step_def Let_def drain_eq cycles_of_append cycles_of_recognition_cycle)
  from 1 2 3 4 5 6 7 show ?thesis by blast
qed

theorem paused_capture_sleeps_witness:
  "is_running (pause ((start init)\<lparr>audio_queue := [([1, 2], Some 0)]\<rparr>))
   \<and> is_paused (pause ((start init)\<lparr>audio_queue := [([1, 2], Some 0)]\<rparr>))
   \<and> interleave [CaptureStep (Some [5, 6]), CaptureStep (Some [5, 6])]
        (pause ((start init)\<lparr>audio_queue := [([1, 2], Some 0)]\<rparr>), AtTest)
       = (pause ((start init)\<lparr>audio_queue := [([1, 2], Some 0)],
                              trace := [Sleep RecordingLoop, Sleep RecordingLoop]\<rparr>), AtTest)
   \<and> map fst (audio_queue (fst (interleave
        [CaptureStep (Some [3, 4]), CaptureStep (Some [5, 6]), CaptureStep (Some [5, 6])]
        (pause ((start init)\<lparr>audio_queue := [([1, 2], Some 0)]\<rparr>), AtRead))))
       = [[1, 2], [3, 4]]
   \<and> snd (processing_step
        \<lparr>current_time = 1, wav_written = True, recognized = UnknownValueError,
         translated = TranslationError\<rparr>
        (pause ((start init)\<lparr>audio_queue := [([1, 2], Some 0)]\<rparr>),
         \<lparr>audio_buffer = [], last_process_time = 0\<rparr>))
       = Some \<lparr>audio_buffer = [[1, 2]], last_process_time = 0\<rparr>"
  using paused_capture_sleeps
    [of "pause ((start init)\<lparr>audio_queue := [([1, 2], Some 0)]\<rparr>)"
        "[Some [5, 6], Some [5, 6]]" "[3, 4]"
        "\<lparr>current_time = 1, wav_written = True, recognized = UnknownValueError,
         translated = TranslationError\<rparr>"
        "\<lparr>audio_buffer = [], last_process_time = 0\<rparr>"]
  by (simp add: pause_def start_def init_def capture_test_def capture_read_def
      processing_step_def Let_def recognition_cycle_def)

text \<open>
  The claim as it is written fails when \<open>pause\<close> comes between the test and the read of
  an iteration: the capture thread of a started pipeline passes its test, the pipeline is
  paused with an empty queue, and the read then puts a frame on the queue while
  \<open>is_paused\<close> is true.
\<close>

theorem pause_during_read_pushes:
  "interleave [CaptureStep (Some [1, 2])] (start init, AtTest) = (start init, AtRead)
   \<and> interleave [CaptureStep (Some [1, 2]), Other Pause] (start init, AtTest)
       = (pause (start init), AtRead)
   \<and> is_paused (pause (start init))
   \<and> audio_queue (pause (start init)) = []
   \<and> is_paused (fst (interleave
        [CaptureStep (Some [1, 2]), Other Pause, CaptureStep (Some [1, 2])]
        (start init, AtTest)))
   \<and> map fst (audio_queue (fst (interleave
        [CaptureStep (Some [1, 2]), Other Pause, CaptureStep (Some [1, 2])]
        (start init, AtTest))))
       = [[1, 2]]
   \<and> trace (fst (interleave
        [CaptureStep (Some [1, 2]), Other Pause, CaptureStep (Some [1, 2])]
        (start init, AtTest)))
       = [StreamRead]"
  by (simp add: capture_test_def capture_read_def start_def pause_def init_def)

section \<open>The empty dictionary\<close>

text \<open>
  Claim C10. The dictionary of a new pipeline is empty, and it is still empty after any
  sequence of operations on the pipeline. So, in any state the pipeline can reach, a
  cycle whose translation fails leaves the target transcript as it was, whatever was
  recognized, and a manual edit whose translation fails sets and returns the text split on
  whitespace and joined again by single spaces.
\<close>

theorem dictionary_stays_empty:
  "bengali_medical_terms init = Map.empty
   \<and> bengali_medical_terms (run acts init) = Map.empty
   \<and> current_english_text (recognition_cycle r TranslationError (run acts init))
       = current_english_text (run acts init)
   \<and> current_english_text (fst (update_bengali_text text TranslationError (run acts init)))
       = join space (split text)
   \<and> snd (update_bengali_text text TranslationError (run acts init)) = join space (split text)"
proof -
  have e: "bengali_medical_terms (run acts init) = Map.empty"
    by (simp add: terms_run init_def)
  have s: "map (substitute Map.empty) ws = ws" for ws
    by (induction ws) (simp_all add: substitute_def)
  have c: "current_english_text (recognition_cycle r TranslationError (run acts init))
       = current_english_text (run acts init)"
    by (auto simp: recognition_cycle_def translate_text_def e notify_bengali_def set_bengali_def
        split: recognition.splits)
  have i: "bengali_medical_terms init = Map.empty"
    by (simp add: init_def)
  show ?thesis
    by (simp add: i e c update_bengali_text_def Let_def translate_words_map s)
qed

section \<open>The controls test no state\<close>

text \<open>
  Claim C1, as amended. \<open>update_bengali_text\<close> tests no state: whatever \<open>is_running\<close>
  is, it sets the source transcript to the given text and the target transcript to the
  text it returns, which is the translation when the translator succeeds. An edit during
  a session is dropped by the handler of the main window instead: when the worker thread
  is running, \<open>on_bengali_edited\<close> returns with the window and the pipeline as they were,
  and with no timer set.
\<close>

theorem edit_guard_in_handler:
  "current_bengali_text (fst (update_bengali_text text tr p)) = text
   \<and> current_english_text (fst (update_bengali_text text tr p))
       = snd (update_bengali_text text tr p)
   \<and> snd (update_bengali_text text (Translated e) p) = e
   \<and> (worker w = Some True \<longrightarrow> on_bengali_edited w = w)"
  by (simp add: update_bengali_text_def Let_def on_bengali_edited_def)

theorem edit_guard_in_handler_witness:
  "worker \<lparr>worker = Some True, pipeline = start init, bengali_text = str ''x'',
           english_text = [], session_bengali = [], session_english = [], timers = []\<rparr>
     = Some True
   \<and> on_bengali_edited
       \<lparr>worker = Some True, pipeline = start init, bengali_text = str ''x'',
        english_text = [], session_bengali = [], session_english = [], timers = []\<rparr>
     = \<lparr>worker = Some True, pipeline = start init, bengali_text = str ''x'',
        english_text = [], session_bengali = [], session_english = [], timers = []\<rparr>"
  using edit_guard_in_handler [of "str ''x''" "Translated (str ''y'')" "start init" "str ''y''"
      "\<lparr>worker = Some True, pipeline = start init, bengali_text = str ''x'',
        english_text = [], session_bengali = [], session_english = [], timers = []\<rparr>"]
  by simp

text \<open>
  The claim as it is written fails on a started pipeline: the call is carried out, both
  transcripts change and the translation is returned.
\<close>

theorem edit_while_running_mutates:
  "is_running (start init)
   \<and> current_bengali_text (start init) = []
   \<and> current_english_text (start init) = []
   \<and> current_bengali_text
        (fst (update_bengali_text (str ''x'') (Translated (str ''y'')) (start init))) = str ''x''
   \<and> current_english_text
        (fst (update_bengali_text (str ''x'') (Translated (str ''y'')) (start init))) = str ''y''
   \<and> snd (update_bengali_text (str ''x'') (Translated (str ''y'')) (start init)) = str ''y''"
  by (simp add: update_bengali_text_def Let_def start_def init_def str_def)

text \<open>
  Claim C3, as amended. \<open>start\<close> tests no state: in every state, running and paused
  included, it sets \<open>is_running\<close>, clears \<open>is_paused\<close>, starts a new recording thread
  and a new processing thread beside those started before, and makes the two thread
  references point to the new ones; the transcripts are left as they were. A second start
  is dropped by the handler of the main window instead: when the worker thread is
  running, \<open>start_recording\<close> returns with the window and the pipeline as they were.
\<close>

theorem start_guard_in_handler:
  "is_running (start p) \<and> \<not> is_paused (start p)
   \<and> threads (start p) = threads p @ [RecordingLoop, ProcessingLoop]
   \<and> recording_thread (start p) = Some (length (threads p))
   \<and> processing_thread (start p) = Some (Suc (length (threads p)))
   \<and> current_bengali_text (start p) = current_bengali_text p
   \<and> current_english_text (start p) = current_english_text p
   \<and> (worker w = Some True \<longrightarrow> start_recording w = w)"
  by (simp add: start_def start_recording_def)

theorem start_guard_in_handler_witness:
  "worker \<lparr>worker = Some True, pipeline = start init, bengali_text = [],
           english_text = [], session_bengali = [], session_english = [], timers = []\<rparr>
     = Some True
   \<and> start_recording
       \<lparr>worker = Some True, pipeline = start init, bengali_text = [],
        english_text = [], session_bengali = [], session_english = [], timers = []\<rparr>
     = \<lparr>worker = Some True, pipeline = start init, bengali_text = [],
        english_text = [], session_bengali = [], session_english = [], timers = []\<rparr>"
  using start_guard_in_handler [of "start init"
      "\<lparr>worker = Some True, pipeline = start init, bengali_text = [],
        english_text = [], session_bengali = [], session_english = [], timers = []\<rparr>"]
  by simp

text \<open>
  The claim as it is written fails on a started and paused pipeline: a second \<open>start\<close>
  clears \<open>is_paused\<close> and starts two more threads, to which the references now point.
\<close>

theorem start_while_paused_restarts:
  "is_running (pause (start init)) \<and> is_paused (pause (start init))
   \<and> threads (pause (start init)) = [RecordingLoop, ProcessingLoop]
   \<and> recording_thread (pause (start init)) = Some 0
   \<and> processing_thread (pause (start init)) = Some 1
   \<and> \<not> is_paused (start (pause (start init)))
   \<and> threads (start (pause (start init)))
       = [RecordingLoop, ProcessingLoop, RecordingLoop, ProcessingLoop]
   \<and> recording_thread (start (pause (start init))) = Some 2
   \<and> processing_thread (start (pause (start init))) = Some 3
   \<and> start (pause (start init)) \<noteq> pause (start init)"
proof -
  have "is_paused (start (pause (start init))) \<noteq> is_paused (pause (start init))"
    by (simp add: start_def pause_def)
  then have "start (pause (start init)) \<noteq> pause (start init)" by metis
  then show ?thesis by (simp add: start_def pause_def init_def)
qed

end
